theory Spec2Isabelle
  imports Main "HOL-Library.Word"
begin

unbundle bit_operations_syntax

section \<open>Data model of cniovs.go\<close>

text \<open>
  The request (\<open>usrsptypes.NetConf\<close>), the identity context (\<open>skel.CmdArgs\<close>), the IP
  result (\<open>current.Result\<close>) and the saved record (\<open>ovsdb.OvsSavedData\<close>), with the
  fields that \<open>cniovs.go\<close> reads or writes. All of them are Go strings.
\<close>

record BridgeConf =
  BridgeName :: string

record VhostConf =
  Mode :: string

record HostConf =
  NetType :: string
  IfType :: string
  BridgeConf :: BridgeConf
  VhostConf :: VhostConf

record NetConf =
  HostConf :: HostConf

record CmdArgs =
  ContainerID :: string
  IfName :: string

record CurrentResult =
  IPs :: "string list"

record OvsSavedData =
  Vhostname :: string
  VhostMac :: string
  IfMac :: string

text \<open>\<open>var data ovsdb.OvsSavedData\<close>: the zero value, every field the empty string.\<close>

definition zeroSavedData :: OvsSavedData where
  "zeroSavedData = \<lparr>Vhostname = [], VhostMac = [], IfMac = []\<rparr>"

text \<open>\<open>const defaultBridge = "br0"\<close>\<close>

definition defaultBridge :: string where
  "defaultBridge = ''br0''"

subsection \<open>The outside world\<close>

text \<open>
  Paths are symbolic: the one directory the code touches is \<open>usrspdb.DefaultSocketDir\<close>,
  and the files are the names that \<open>Readdirnames\<close> lists in it.
\<close>

datatype fspath = SocketDir | SocketFile string

text \<open>The calls that leave \<open>cniovs.go\<close> and may fail, with their arguments.\<close>

datatype call =
    CreateBridgeCall string
  | DeleteBridgeCall string
  | CreateVhostPortCall string bool string
  | GetVhostPortMacCall string
  | DeleteVhostPortCall string string
  | SaveConfigCall string string
  | OsStatCall fspath
  | OsMkdirAllCall fspath
  | OsOpenCall fspath
  | ReaddirnamesCall fspath
  | OsRemoveCall fspath

text \<open>
  Go's \<open>error\<close> values. \<open>ErrorsNew\<close> is \<open>errors.New\<close> with its message;
  \<open>SliceBoundsPanic\<close> is the runtime panic of \<open>args.ContainerID[:12]\<close> on a shorter
  string, which unwinds through every caller as an error return does.
\<close>

datatype error =
    ErrorsNew string
  | ConfigNotFound
  | VswitchOperationFailed call
  | FilesystemError call
  | ErrNotExist fspath
  | ErrNotEmpty fspath
  | SliceBoundsPanic

record vport =
  portBridge :: string
  portSocket :: string
  portClient :: bool

text \<open>
  The state outside the process: the vswitch (bridges, ports by name), the socket directory
  (\<open>None\<close> when it does not exist, else its listing), the Saved-Attachment Store keyed by
  container ID and interface name; and what the environment decides: which calls fail, the
  name the vswitch assigns to a port, the MAC it reports, what \<open>rand.Read\<close> delivers
  (\<open>None\<close> when it fails), and what Go's \<open>regexp\<close> package answers on the patterns
  that are not modelled below (\<open>regexpOther\<close>, on which nothing is assumed).
\<close>

record world =
  bridges :: "string set"
  ports :: "(string \<times> vport) list"
  socketDir :: "string list option"
  savedStore :: "string \<times> string \<Rightarrow> OvsSavedData option"
  failing :: "call \<Rightarrow> bool"
  assignedPortName :: "string \<Rightarrow> string"
  reportedMac :: "string \<Rightarrow> string"
  randRead :: "8 word list option"
  regexpOther :: "string \<Rightarrow> string \<Rightarrow> bool"

text \<open>Modelled from the spec: \<open>usrspdb.DefaultSocketDir\<close> is missing from the sources;
  the well-known socket directory, fixed for the node.\<close>

definition DefaultSocketDir :: fspath where
  "DefaultSocketDir = SocketDir"

subsection \<open>Vswitch control and the store\<close>

text \<open>
  The functions of this part are called by \<open>cniovs.go\<close> and defined elsewhere in the
  repository. A failing call is the error of its kind and changes nothing.
\<close>

text \<open>Modelled from the spec: \<open>findBridge\<close> is missing from the sources; it queries
  whether a bridge of that name exists.\<close>

definition findBridge :: "string \<Rightarrow> world \<Rightarrow> bool" where
  "findBridge name w = (name \<in> bridges w)"

text \<open>Modelled from the spec: \<open>createBridge\<close> is missing from the sources; bridge create
  by name, where creating an existing bridge is a success.\<close>

definition createBridge :: "string \<Rightarrow> world \<Rightarrow> error option \<times> world" where
  "createBridge name w =
     (if failing w (CreateBridgeCall name)
      then (Some (VswitchOperationFailed (CreateBridgeCall name)), w)
      else (None, w\<lparr>bridges := insert name (bridges w)\<rparr>))"

text \<open>Modelled from the spec: \<open>deleteBridge\<close> is missing from the sources; bridge delete
  by name, where deleting an absent bridge is a success.\<close>

definition deleteBridge :: "string \<Rightarrow> world \<Rightarrow> error option \<times> world" where
  "deleteBridge name w =
     (if failing w (DeleteBridgeCall name)
      then (Some (VswitchOperationFailed (DeleteBridgeCall name)), w)
      else (None, w\<lparr>bridges := bridges w - {name}\<rparr>))"

text \<open>Modelled from the spec: \<open>doesBridgeContainInterfaces\<close> is missing from the sources;
  it queries whether any interface is still attached to the bridge.\<close>

definition doesBridgeContainInterfaces :: "string \<Rightarrow> world \<Rightarrow> bool" where
  "doesBridgeContainInterfaces name w = list_ex (\<lambda>(n, p). portBridge p = name) (ports w)"

text \<open>Modelled from the spec: \<open>createVhostPort\<close> is missing from the sources; it adds a
  vhost-user port whose socket lives under \<open>socketDir/socketRef\<close>, in client or server
  socket mode as requested, attached to the bridge, and returns the vswitch-assigned port
  name.\<close>

definition createVhostPort ::
  "fspath \<Rightarrow> string \<Rightarrow> bool \<Rightarrow> string \<Rightarrow> world \<Rightarrow> (string \<times> error option) \<times> world" where
  "createVhostPort sockDir sockRef clientMode bridgeName w =
     (if failing w (CreateVhostPortCall sockRef clientMode bridgeName)
      then (([], Some (VswitchOperationFailed (CreateVhostPortCall sockRef clientMode bridgeName))), w)
      else
        (let vhostName = assignedPortName w sockRef;
             p = \<lparr>portBridge = bridgeName, portSocket = sockRef, portClient = clientMode\<rparr>
         in ((vhostName, None),
             w\<lparr>ports := (vhostName, p) # filter (\<lambda>(n, q). n \<noteq> vhostName) (ports w)\<rparr>)))"

text \<open>Modelled from the spec: \<open>getVhostPortMac\<close> is missing from the sources; it queries
  the vswitch for the MAC address bound to the port.\<close>

definition getVhostPortMac :: "string \<Rightarrow> world \<Rightarrow> string \<times> error option" where
  "getVhostPortMac vhostName w =
     (if failing w (GetVhostPortMacCall vhostName)
      then ([], Some (VswitchOperationFailed (GetVhostPortMacCall vhostName)))
      else (reportedMac w vhostName, None))"

text \<open>Modelled from the spec: \<open>deleteVhostPort\<close> is missing from the sources; it removes
  the port if present and succeeds when the port is already absent.\<close>

definition deleteVhostPort :: "string \<Rightarrow> string \<Rightarrow> world \<Rightarrow> error option \<times> world" where
  "deleteVhostPort vhostName bridgeName w =
     (if failing w (DeleteVhostPortCall vhostName bridgeName)
      then (Some (VswitchOperationFailed (DeleteVhostPortCall vhostName bridgeName)), w)
      else (None, w\<lparr>ports := filter (\<lambda>(n, q). n \<noteq> vhostName) (ports w)\<rparr>))"

text \<open>Modelled from the spec: \<open>ovsdb.SaveConfig\<close> is missing from the sources; it writes
  the record under the attachment identity (container ID, interface name).\<close>

definition SaveConfig :: "NetConf \<Rightarrow> CmdArgs \<Rightarrow> OvsSavedData \<Rightarrow> world \<Rightarrow> error option \<times> world" where
  "SaveConfig conf args data w =
     (if failing w (SaveConfigCall (ContainerID args) (IfName args))
      then (Some (FilesystemError (SaveConfigCall (ContainerID args) (IfName args))), w)
      else (None, w\<lparr>savedStore := (savedStore w)((ContainerID args, IfName args) \<mapsto> data)\<rparr>))"

text \<open>Modelled from the spec: \<open>ovsdb.LoadConfig\<close> is missing from the sources; it fails
  with \<open>ConfigNotFound\<close> when the identity has no record, and otherwise retrieves the
  record and then erases it.\<close>

definition LoadConfig ::
  "NetConf \<Rightarrow> CmdArgs \<Rightarrow> OvsSavedData \<Rightarrow> world \<Rightarrow> error option \<times> OvsSavedData \<times> world" where
  "LoadConfig conf args data w =
     (case savedStore w (ContainerID args, IfName args) of
        None \<Rightarrow> (Some ConfigNotFound, data, w)
      | Some saved \<Rightarrow>
          (None, saved, w\<lparr>savedStore := (savedStore w)((ContainerID args, IfName args) := None)\<rparr>))"

subsection \<open>The Go library calls\<close>

text \<open>\<open>os.Stat\<close>, \<open>os.IsNotExist\<close>, \<open>os.MkdirAll\<close>, \<open>os.Open\<close>, \<open>Readdirnames(0)\<close>,
  \<open>filepath.Join\<close> and \<open>os.Remove\<close>, on the socket directory and the files in it.\<close>

definition osStat :: "fspath \<Rightarrow> world \<Rightarrow> error option" where
  "osStat p w =
     (if failing w (OsStatCall p) then Some (FilesystemError (OsStatCall p))
      else case p of
        SocketDir \<Rightarrow> (if socketDir w = None then Some (ErrNotExist p) else None)
      | SocketFile f \<Rightarrow>
          (case socketDir w of
             None \<Rightarrow> Some (ErrNotExist p)
           | Some fs \<Rightarrow> if f \<in> set fs then None else Some (ErrNotExist p)))"

fun osIsNotExist :: "error \<Rightarrow> bool" where
  "osIsNotExist (ErrNotExist p) = True"
| "osIsNotExist e = False"

definition osMkdirAll :: "fspath \<Rightarrow> world \<Rightarrow> error option \<times> world" where
  "osMkdirAll p w =
     (if failing w (OsMkdirAllCall p) then (Some (FilesystemError (OsMkdirAllCall p)), w)
      else case socketDir w of
        None \<Rightarrow> (None, w\<lparr>socketDir := Some []\<rparr>)
      | Some fs \<Rightarrow> (None, w))"

definition osOpen :: "fspath \<Rightarrow> world \<Rightarrow> error option" where
  "osOpen p w =
     (if failing w (OsOpenCall p) then Some (FilesystemError (OsOpenCall p))
      else if socketDir w = None then Some (ErrNotExist p) else None)"

definition Readdirnames :: "fspath \<Rightarrow> world \<Rightarrow> string list \<times> error option" where
  "Readdirnames p w =
     (if failing w (ReaddirnamesCall p) then ([], Some (FilesystemError (ReaddirnamesCall p)))
      else case socketDir w of
        None \<Rightarrow> ([], Some (ErrNotExist p))
      | Some fs \<Rightarrow> (fs, None))"

definition filepathJoin :: "fspath \<Rightarrow> string \<Rightarrow> fspath" where
  "filepathJoin p fileName = SocketFile fileName"

definition osRemove :: "fspath \<Rightarrow> world \<Rightarrow> error option \<times> world" where
  "osRemove p w =
     (if failing w (OsRemoveCall p) then (Some (FilesystemError (OsRemoveCall p)), w)
      else case socketDir w of
        None \<Rightarrow> (Some (ErrNotExist p), w)
      | Some fs \<Rightarrow>
          (case p of
             SocketDir \<Rightarrow>
               (if fs = [] then (None, w\<lparr>socketDir := None\<rparr>) else (Some (ErrNotEmpty p), w))
           | SocketFile f \<Rightarrow>
               (if f \<in> set fs then (None, w\<lparr>socketDir := Some (filter (\<lambda>g. g \<noteq> f) fs)\<rparr>)
                else (Some (ErrNotExist p), w))))"

subsection \<open>\<open>regexp.MatchString\<close>\<close>

text \<open>
  Go's \<open>regexp.MatchString(pattern, s)\<close> compiles the pattern and reports whether \<open>s\<close>
  contains any match of it: the match is not anchored at either end. When the pattern does
  not compile, the result is \<open>false\<close> with an error. The only caller discards the
  error, so the model gives the value of \<open>match\<close>.

  The characters with a meaning of their own in a pattern:
\<close>

definition regexpMeta :: "char \<Rightarrow> bool" where
  "regexpMeta c = (c = CHR 0x5C \<or> c \<in> set ''.+*?()|[]{}^$'')"

text \<open>A string of ASCII characters that all stand for themselves in a pattern.\<close>

definition regexpLiteral :: "string \<Rightarrow> bool" where
  "regexpLiteral lit = list_all (\<lambda>c. \<not> regexpMeta c \<and> \<not> digit7 c) lit"

text \<open>The string \<open>lit\<close> at the head of \<open>s\<close>, and anywhere in \<open>s\<close>.\<close>

fun literalAt :: "string \<Rightarrow> string \<Rightarrow> bool" where
  "literalAt [] s = True"
| "literalAt (c # lit) [] = False"
| "literalAt (c # lit) (d # s) = (c = d \<and> literalAt lit s)"

fun literalIn :: "string \<Rightarrow> string \<Rightarrow> bool" where
  "literalIn lit [] = literalAt lit []"
| "literalIn lit (d # s) = (literalAt lit (d # s) \<or> literalIn lit s)"

text \<open>
  The patterns modelled are those of the form \<open>lit.*\<close> with \<open>lit\<close> such a literal
  string, which is what \<open>fileBaseName + ".*"\<close> is when the container ID and the interface
  name hold no metacharacter. Such a pattern compiles, and as \<open>.*\<close> matches the empty
  string too, \<open>s\<close> contains a match exactly when it contains \<open>lit\<close>. On every other
  pattern (one with an operator, a group, a class, an escape, or one that does not compile)
  the answer is the environment's \<open>regexpOther\<close>.
\<close>

definition regexpMatchString :: "string \<Rightarrow> string \<Rightarrow> world \<Rightarrow> bool" where
  "regexpMatchString pattern s w =
     (let n = length pattern - 2
      in if 2 \<le> length pattern \<and> drop n pattern = ''.*'' \<and> regexpLiteral (take n pattern)
         then literalIn (take n pattern) s
         else regexpOther w pattern s)"

section \<open>cniovs.go\<close>

subsection \<open>Utility functions\<close>

text \<open>\<open>%02x\<close> of a byte: two lower-case hexadecimal digits.\<close>

definition hexDigit :: "nat \<Rightarrow> char" where
  "hexDigit n = ''0123456789abcdef'' ! (n mod 16)"

definition fmt02x :: "8 word \<Rightarrow> string" where
  "fmt02x b = [hexDigit (unat b div 16), hexDigit (unat b mod 16)]"

text \<open>
  \<open>generateRandomMacAddress\<close>: \<open>rand.Read\<close> fills the six bytes of \<open>buf\<close> or fails (then
  the result is the empty string); the first byte gets the local bit and loses the
  multicast bit.
\<close>

definition generateRandomMacAddress :: "world \<Rightarrow> string" where
  "generateRandomMacAddress w =
     (case randRead w of
        None \<Rightarrow> []
      | Some buf \<Rightarrow>
          fmt02x (((buf ! 0) OR 0x2) AND 0xfe) @ '':'' @ fmt02x (buf ! 1) @ '':'' @
          fmt02x (buf ! 2) @ '':'' @ fmt02x (buf ! 3) @ '':'' @
          fmt02x (buf ! 4) @ '':'' @ fmt02x (buf ! 5))"

subsection \<open>The bridge\<close>

definition addLocalNetworkBridge ::
  "NetConf \<Rightarrow> CmdArgs \<Rightarrow> OvsSavedData \<Rightarrow> world \<Rightarrow> error option \<times> world" where
  "addLocalNetworkBridge conf args data w =
     (if findBridge (BridgeName (BridgeConf (HostConf conf))) w = False
      then createBridge (BridgeName (BridgeConf (HostConf conf))) w
      else (None, w))"

definition delLocalNetworkBridge ::
  "NetConf \<Rightarrow> CmdArgs \<Rightarrow> OvsSavedData \<Rightarrow> world \<Rightarrow> error option \<times> world" where
  "delLocalNetworkBridge conf args data w =
     (if doesBridgeContainInterfaces (BridgeName (BridgeConf (HostConf conf))) w = False
      then deleteBridge (BridgeName (BridgeConf (HostConf conf))) w
      else (None, w))"

subsection \<open>The vhost-user port\<close>

text \<open>
  \<open>addLocalDeviceVhost\<close>. The error of \<open>getVhostPortMac\<close> lives in the scope of its
  \<open>if\<close> statement only: when the query fails, \<open>data.VhostMac\<close> keeps its value and the
  function goes on; what it returns is the error of \<open>createVhostPort\<close>.
\<close>

definition addLocalDeviceVhost ::
  "NetConf \<Rightarrow> CmdArgs \<Rightarrow> OvsSavedData \<Rightarrow> world \<Rightarrow> error option \<times> OvsSavedData \<times> world" where
  "addLocalDeviceVhost conf args data w =
     (if length (ContainerID args) < 12 then (Some SliceBoundsPanic, data, w)
      else
        let sockRef = take 12 (ContainerID args) @ ''-'' @ IfName args;
            sockDir = DefaultSocketDir
        in case (case osStat sockDir w of
                   Some e \<Rightarrow> (if osIsNotExist e then osMkdirAll sockDir w else (Some e, w))
                 | None \<Rightarrow> (None, w)) of
          (Some e, w1) \<Rightarrow> (Some e, data, w1)
        | (None, w1) \<Rightarrow>
            (let clientMode = (if Mode (VhostConf (HostConf conf)) = ''Mode'' then True else False);
                 bridgeName =
                   (if NetType (HostConf conf) = ''bridge''
                    then BridgeName (BridgeConf (HostConf conf)) else [])
             in (case createVhostPort sockDir sockRef clientMode bridgeName w1 of
                   ((vhostName, Some e), w2) \<Rightarrow> (Some e, data, w2)
                 | ((vhostName, None), w2) \<Rightarrow>
                     (let data1 =
                            (case getVhostPortMac vhostName w2 of
                               (vhostPortMac, None) \<Rightarrow> data\<lparr>VhostMac := vhostPortMac\<rparr>
                             | (vhostPortMac, Some e) \<Rightarrow> data);
                          data2 = data1\<lparr>Vhostname := vhostName\<rparr>;
                          data3 = data2\<lparr>IfMac := generateRandomMacAddress w2\<rparr>
                      in (None, data3, w2)))))"

text \<open>
  The loop of \<open>delLocalDeviceVhost\<close> over the listing: a file whose name the pattern
  matches is removed and counted; the first failing removal ends the function with its error.
\<close>

fun removeMatching ::
  "fspath \<Rightarrow> string \<Rightarrow> string list \<Rightarrow> nat \<Rightarrow> world \<Rightarrow> error option \<times> nat \<times> world" where
  "removeMatching path fileBaseName [] numDeletedFiles w = (None, numDeletedFiles, w)"
| "removeMatching path fileBaseName (fileName # rest) numDeletedFiles w =
     (if regexpMatchString (fileBaseName @ ''.*'') fileName w = True
      then
        (case osRemove (filepathJoin path fileName) w of
           (Some e, w1) \<Rightarrow> (Some e, numDeletedFiles, w1)
         | (None, w1) \<Rightarrow> removeMatching path fileBaseName rest (Suc numDeletedFiles) w1)
      else removeMatching path fileBaseName rest numDeletedFiles w)"

text \<open>
  \<open>delLocalDeviceVhost\<close>. The error of \<open>deleteVhostPort\<close> lives in the scope of its
  \<open>if\<close> statement only: when the deletion fails the block is skipped and the function
  returns \<open>nil\<close>.
\<close>

definition delLocalDeviceVhost ::
  "NetConf \<Rightarrow> CmdArgs \<Rightarrow> OvsSavedData \<Rightarrow> world \<Rightarrow> error option \<times> world" where
  "delLocalDeviceVhost conf args data w =
     (let bridgeName =
            (if NetType (HostConf conf) = ''bridge''
             then BridgeName (BridgeConf (HostConf conf)) else [])
      in case deleteVhostPort (Vhostname data) bridgeName w of
           (Some e, w1) \<Rightarrow> (None, w1)
         | (None, w1) \<Rightarrow>
             (let path = DefaultSocketDir
              in (case osOpen path w1 of
                    Some e \<Rightarrow> (Some e, w1)
                  | None \<Rightarrow>
                      (if length (ContainerID args) < 12 then (Some SliceBoundsPanic, w1)
                       else
                         (let fileBaseName = take 12 (ContainerID args) @ ''-'' @ IfName args
                          in (case Readdirnames path w1 of
                                (filesForContainerID, Some e) \<Rightarrow> (Some e, w1)
                              | (filesForContainerID, None) \<Rightarrow>
                                  (case removeMatching path fileBaseName filesForContainerID 0 w1 of
                                     (Some e, numDeletedFiles, w2) \<Rightarrow> (Some e, w2)
                                   | (None, numDeletedFiles, w2) \<Rightarrow>
                                       (if numDeletedFiles = length filesForContainerID
                                        then
                                          (case osRemove path w2 of
                                             (Some e, w3) \<Rightarrow> (Some e, w3)
                                           | (None, w3) \<Rightarrow> (None, w3))
                                        else (None, w2)))))))))"

subsection \<open>API functions\<close>

text \<open>
  \<open>AddOnHost\<close>. \<open>conf\<close> is a pointer and the caller sees the normalization, so the
  request comes back with the error. The branch on \<open>NetType == "interface"\<close> has an empty
  body.
\<close>

definition AddOnHost ::
  "NetConf \<Rightarrow> CmdArgs \<Rightarrow> CurrentResult \<Rightarrow> world \<Rightarrow> error option \<times> NetConf \<times> world" where
  "AddOnHost conf0 args ipResult w =
     (let data = zeroSavedData;
          conf =
            (if NetType (HostConf conf0) \<noteq> ''bridge''
             then conf0\<lparr>HostConf := (HostConf conf0)
                    \<lparr>NetType := ''bridge'',
                     BridgeConf := (BridgeConf (HostConf conf0))\<lparr>BridgeName := defaultBridge\<rparr>\<rparr>\<rparr>
             else conf0)
      in case (if NetType (HostConf conf) = ''bridge''
               then addLocalNetworkBridge conf args data w else (None, w)) of
        (Some e, w1) \<Rightarrow> (Some e, conf, w1)
      | (None, w1) \<Rightarrow>
          (case (if IfType (HostConf conf) = ''vhostuser''
                 then addLocalDeviceVhost conf args data w1
                 else (Some (ErrorsNew (''ERROR: Unknown HostConf.IfType:'' @ IfType (HostConf conf))),
                       data, w1)) of
             (Some e, data1, w2) \<Rightarrow> (Some e, conf, w2)
           | (None, data1, w2) \<Rightarrow>
               (case SaveConfig conf args data1 w2 of
                  (Some e, w3) \<Rightarrow> (Some e, conf, w3)
                | (None, w3) \<Rightarrow> (None, conf, w3))))"

text \<open>\<open>DelFromHost\<close>: the saved record is loaded first, then the request is normalized.\<close>

definition DelFromHost ::
  "NetConf \<Rightarrow> CmdArgs \<Rightarrow> world \<Rightarrow> error option \<times> NetConf \<times> world" where
  "DelFromHost conf0 args w =
     (case LoadConfig conf0 args zeroSavedData w of
        (Some e, data, w1) \<Rightarrow> (Some e, conf0, w1)
      | (None, data, w1) \<Rightarrow>
          (let conf =
                (if NetType (HostConf conf0) \<noteq> ''bridge''
                 then conf0\<lparr>HostConf := (HostConf conf0)
                        \<lparr>NetType := ''bridge'',
                         BridgeConf := (BridgeConf (HostConf conf0))\<lparr>BridgeName := defaultBridge\<rparr>\<rparr>\<rparr>
                 else conf0)
           in (case (if IfType (HostConf conf) = ''vhostuser''
                     then delLocalDeviceVhost conf args data w1
                     else (Some (ErrorsNew (''ERROR: Unknown HostConf.Type:'' @ IfType (HostConf conf))),
                           w1)) of
                 (Some e, w2) \<Rightarrow> (Some e, conf, w2)
               | (None, w2) \<Rightarrow>
                   (if NetType (HostConf conf) = ''bridge''
                    then (case delLocalNetworkBridge conf args data w2 of
                            (Some e, w3) \<Rightarrow> (Some e, conf, w3)
                          | (None, w3) \<Rightarrow> (None, conf, w3))
                    else (None, conf, w2)))))"

section \<open>Notions of the specification\<close>

text \<open>
  \<open>UnsupportedInterfaceType\<close> is the error that \<open>AddOnHost\<close> builds for an interface
  type other than \<open>vhostuser\<close>.
\<close>

definition UnsupportedInterfaceType :: "string \<Rightarrow> error" where
  "UnsupportedInterfaceType ifType = ErrorsNew (''ERROR: Unknown HostConf.IfType:'' @ ifType)"

text \<open>
  The normalization in the words of the specification (4.1, step 1): if the network type
  is not \<open>bridge\<close>, force it to \<open>bridge\<close> with the default bridge name.
\<close>

definition normalizeRequest :: "NetConf \<Rightarrow> NetConf" where
  "normalizeRequest conf =
     (if NetType (HostConf conf) = ''bridge'' then conf
      else conf\<lparr>HostConf := (HostConf conf)
             \<lparr>NetType := ''bridge'',
              BridgeConf := (BridgeConf (HostConf conf))\<lparr>BridgeName := ''br0''\<rparr>\<rparr>\<rparr>)"

text \<open>The attachment's reference string: the first 12 characters of the container ID, a
  \<open>-\<close>, then the interface name.\<close>

definition referenceString :: "CmdArgs \<Rightarrow> string" where
  "referenceString args = take 12 (ContainerID args) @ ''-'' @ IfName args"

text \<open>Reading a MAC address back: the value of a hexadecimal digit, and the first octet of
  a string that starts with two of them.\<close>

definition hexValue :: "char \<Rightarrow> nat option" where
  "hexValue c = map_of (zip ''0123456789abcdef'' [0 ..< 16]) c"

definition macFirstOctet :: "string \<Rightarrow> 8 word option" where
  "macFirstOctet s =
     (case s of
        c1 # c2 # rest \<Rightarrow>
          (case (hexValue c1, hexValue c2) of
             (Some hi, Some lo) \<Rightarrow> Some (of_nat (16 * hi + lo))
           | _ \<Rightarrow> None)
      | _ \<Rightarrow> None)"

subsection \<open>Example inputs\<close>

text \<open>A request, the identity of the specification's example, and a fresh node: no bridge, no
  port, no socket directory, an empty store, and no failing call. The patterns of the
  examples are all of the modelled form, so that \<open>regexpOther\<close> is never asked.\<close>

definition exConf :: "string \<Rightarrow> string \<Rightarrow> string \<Rightarrow> string \<Rightarrow> NetConf" where
  "exConf netType ifType bridgeName vhostMode =
     \<lparr>HostConf = \<lparr>NetType = netType, IfType = ifType,
                   BridgeConf = \<lparr>BridgeName = bridgeName\<rparr>,
                   VhostConf = \<lparr>Mode = vhostMode\<rparr>\<rparr>\<rparr>"

definition exArgs :: CmdArgs where
  "exArgs = \<lparr>ContainerID = ''abc123def456789'', IfName = ''eth0''\<rparr>"

definition exResult :: CurrentResult where
  "exResult = \<lparr>IPs = []\<rparr>"

definition exWorld :: world where
  "exWorld =
     \<lparr>bridges = {}, ports = [], socketDir = None, savedStore = Map.empty,
      failing = (\<lambda>c. False), assignedPortName = (\<lambda>sockRef. sockRef),
      reportedMac = (\<lambda>vhostName. ''00:00:00:00:00:01''),
      randRead = Some [0xff, 0x01, 0x02, 0x03, 0x04, 0xab],
      regexpOther = (\<lambda>pattern s. False)\<rparr>"

text \<open>The node after \<open>AddOnHost\<close> for the example identity on bridge \<open>br0\<close>, with a
  given listing of the socket directory; and the same node with a second attachment on the
  bridge.\<close>

definition exSaved :: OvsSavedData where
  "exSaved = \<lparr>Vhostname = ''abc123def456-eth0'', VhostMac = ''00:00:00:00:00:01'',
              IfMac = ''fe:01:02:03:04:ab''\<rparr>"

definition exPort :: vport where
  "exPort = \<lparr>portBridge = ''br0'', portSocket = ''abc123def456-eth0'', portClient = False\<rparr>"

definition exAttached :: "string list \<Rightarrow> world" where
  "exAttached files =
     exWorld\<lparr>bridges := {''br0''}, ports := [(''abc123def456-eth0'', exPort)],
             socketDir := Some files,
             savedStore := [(''abc123def456789'', ''eth0'') \<mapsto> exSaved]\<rparr>"

definition exShared :: "string list \<Rightarrow> world" where
  "exShared files =
     (exAttached files)
       \<lparr>ports := [(''abc123def456-eth0'', exPort),
                  (''999999999999-eth1'', exPort\<lparr>portSocket := ''999999999999-eth1''\<rparr>)]\<rparr>"

section \<open>Properties\<close>

lemmas model_defs =
  AddOnHost_def DelFromHost_def addLocalNetworkBridge_def delLocalNetworkBridge_def
  addLocalDeviceVhost_def delLocalDeviceVhost_def generateRandomMacAddress_def
  fmt02x_def hexDigit_def findBridge_def createBridge_def deleteBridge_def
  doesBridgeContainInterfaces_def createVhostPort_def getVhostPortMac_def deleteVhostPort_def
  SaveConfig_def LoadConfig_def osStat_def osMkdirAll_def osOpen_def Readdirnames_def
  filepathJoin_def osRemove_def regexpMatchString_def regexpLiteral_def regexpMeta_def
  DefaultSocketDir_def
  defaultBridge_def zeroSavedData_def Let_def

lemmas example_defs =
  exConf_def exArgs_def exResult_def exWorld_def exSaved_def exPort_def exAttached_def
  exShared_def

subsection \<open>The synthesized MAC address\<close>

lemma hexValue_table:
  "list_all (\<lambda>m. hexValue (''0123456789abcdef'' ! m) = Some m) [0 ..< 16]"
  by code_simp

lemma hexValue_hexDigit: "hexValue (hexDigit n) = Some (n mod 16)"
proof -
  have "n mod 16 \<in> set [0 ..< 16]" by simp
  with hexValue_table show ?thesis
    unfolding hexDigit_def list_all_iff by blast
qed

lemma byte_less_256: "unat (b :: 8 word) < 256"
  using unsigned_less [of b, where ?'a = nat] by simp

lemma macFirstOctet_fmt02x: "macFirstOctet (fmt02x b @ rest) = Some b"
proof -
  have lt: "unat b div 16 < 16" using byte_less_256 [of b] by simp
  have "16 * (unat b div 16) + unat b mod 16 = unat b" by simp
  then show ?thesis
    using lt by (simp add: macFirstOctet_def fmt02x_def hexValue_hexDigit)
qed

lemma local_bit_set: "((x OR 0x2) AND 0xfe) AND 0x02 = (0x02 :: 8 word)"
  by (simp add: and.assoc bit.conj_disj_distrib2)

lemma multicast_bit_clear: "((x OR 0x2) AND 0xfe) AND 0x01 = (0 :: 8 word)"
  by (simp add: and.assoc)

text \<open>
  C9. For every six bytes that the random source delivers, the first octet of the
  synthesized MAC address has the locally-administered bit (0x02) set and the multicast bit
  (0x01) clear.
\<close>

theorem generateRandomMacAddress_local_unicast:
  assumes "randRead w = Some buf" and "length buf = 6"
  shows "\<exists>b. macFirstOctet (generateRandomMacAddress w) = Some b \<and>
             b AND 0x02 = 0x02 \<and> b AND 0x01 = 0"
proof -
  have "macFirstOctet (generateRandomMacAddress w) = Some (((buf ! 0) OR 0x2) AND 0xfe)"
    using assms(1) unfolding generateRandomMacAddress_def
    by (simp only: option.case macFirstOctet_fmt02x)
  then show ?thesis
    using local_bit_set [of "buf ! 0"] multicast_bit_clear [of "buf ! 0"] by simp
qed

theorem generateRandomMacAddress_local_unicast_witness:
  "randRead exWorld = Some [0xff, 0x01, 0x02, 0x03, 0x04, 0xab] \<and>
   length [0xff, 0x01, 0x02, 0x03, 0x04, 0xab :: 8 word] = 6 \<and>
   generateRandomMacAddress exWorld = ''fe:01:02:03:04:ab'' \<and>
   (\<exists>b. macFirstOctet (generateRandomMacAddress exWorld) = Some b \<and>
        b AND 0x02 = 0x02 \<and> b AND 0x01 = 0)"
proof -
  have r: "randRead exWorld = Some [0xff, 0x01, 0x02, 0x03, 0x04, 0xab]"
    by (simp add: exWorld_def)
  have g: "generateRandomMacAddress exWorld = ''fe:01:02:03:04:ab''"
    by (simp add: generateRandomMacAddress_def exWorld_def fmt02x_def hexDigit_def)
  show ?thesis
    using r g generateRandomMacAddress_local_unicast [OF r] by simp
qed

subsection \<open>Normalization of the request\<close>

lemma normalizeRequest_NetType: "NetType (HostConf (normalizeRequest conf)) = ''bridge''"
  by (simp add: normalizeRequest_def)

lemma normalizeRequest_IfType:
  "IfType (HostConf (normalizeRequest conf)) = IfType (HostConf conf)"
  by (simp add: normalizeRequest_def)

lemma normalizeRequest_coerces:
  "NetType (HostConf conf) \<noteq> ''bridge'' \<Longrightarrow>
     BridgeName (BridgeConf (HostConf (normalizeRequest conf))) = ''br0''"
  by (simp add: normalizeRequest_def)

lemma AddOnHost_normalizes:
  "AddOnHost conf args ipResult w = AddOnHost (normalizeRequest conf) args ipResult w"
  by (cases "NetType (HostConf conf) = ''bridge''")
     (simp_all add: AddOnHost_def normalizeRequest_def defaultBridge_def)

lemma AddOnHost_conf: "fst (snd (AddOnHost conf args ipResult w)) = normalizeRequest conf"
  by (cases "NetType (HostConf conf) = ''bridge''")
     (auto simp: AddOnHost_def normalizeRequest_def defaultBridge_def Let_def
        split: prod.splits option.splits)

lemma normalizeRequest_idem: "normalizeRequest (normalizeRequest conf) = normalizeRequest conf"
  by (simp add: normalizeRequest_def)

lemma DelFromHost_not_loaded:
  "savedStore w (ContainerID args, IfName args) = None \<Longrightarrow>
     DelFromHost conf args w = (Some ConfigNotFound, conf, w)"
  by (simp add: DelFromHost_def LoadConfig_def)

lemma DelFromHost_loaded:
  assumes "savedStore w (ContainerID args, IfName args) = Some data"
  shows "DelFromHost conf args w =
    (case (if IfType (HostConf conf) = ''vhostuser''
           then delLocalDeviceVhost (normalizeRequest conf) args data
                  (w\<lparr>savedStore := (savedStore w)((ContainerID args, IfName args) := None)\<rparr>)
           else (Some (ErrorsNew (''ERROR: Unknown HostConf.Type:'' @ IfType (HostConf conf))),
                 w\<lparr>savedStore := (savedStore w)((ContainerID args, IfName args) := None)\<rparr>)) of
       (Some e, w2) \<Rightarrow> (Some e, normalizeRequest conf, w2)
     | (None, w2) \<Rightarrow>
         (case delLocalNetworkBridge (normalizeRequest conf) args data w2 of
            (Some e, w3) \<Rightarrow> (Some e, normalizeRequest conf, w3)
          | (None, w3) \<Rightarrow> (None, normalizeRequest conf, w3)))"
  using assms
  by (cases "NetType (HostConf conf) = ''bridge''")
     (simp_all add: DelFromHost_def LoadConfig_def normalizeRequest_def defaultBridge_def Let_def
        cong: prod.case_cong option.case_cong)

lemma DelFromHost_normalizes:
  "fst (DelFromHost conf args w) = fst (DelFromHost (normalizeRequest conf) args w) \<and>
   snd (snd (DelFromHost conf args w)) = snd (snd (DelFromHost (normalizeRequest conf) args w))"
proof (cases "savedStore w (ContainerID args, IfName args)")
  case None
  then show ?thesis by (simp add: DelFromHost_not_loaded)
next
  case (Some data)
  show ?thesis
    unfolding DelFromHost_loaded [OF Some] normalizeRequest_idem normalizeRequest_IfType
    by (rule conjI; rule refl)
qed

lemma DelFromHost_conf:
  assumes "savedStore w (ContainerID args, IfName args) \<noteq> None"
  shows "fst (snd (DelFromHost conf args w)) = normalizeRequest conf"
proof -
  let ?w1 = "w\<lparr>savedStore := (savedStore w)((ContainerID args, IfName args) := None)\<rparr>"
  from assms obtain data where s: "savedStore w (ContainerID args, IfName args) = Some data"
    by blast
  obtain e2 w2 where
    a: "(if IfType (HostConf conf) = ''vhostuser''
         then delLocalDeviceVhost (normalizeRequest conf) args data ?w1
         else (Some (ErrorsNew (''ERROR: Unknown HostConf.Type:'' @ IfType (HostConf conf))),
               ?w1)) = (e2, w2)"
    by fastforce
  obtain e3 w3 where b: "delLocalNetworkBridge (normalizeRequest conf) args data w2 = (e3, w3)"
    by fastforce
  show ?thesis
    unfolding DelFromHost_loaded [OF s] a prod.case b
    by (cases e2; cases e3) simp_all
qed

text \<open>
  C2, as the code has it. \<open>AddOnHost\<close> and \<open>DelFromHost\<close> apply the same
  normalization, \<open>AddOnHost\<close> as its first step and \<open>DelFromHost\<close> as the step after
  loading the saved record. For an Add-time request and a Delete-time request that may
  differ, both with a network type other than \<open>bridge\<close> (the empty one included): the
  request that \<open>AddOnHost\<close> leaves has network type \<open>bridge\<close> and bridge name \<open>br0\<close>,
  and the call is the call on the normalized request; \<open>DelFromHost\<close> gives the error and
  the state of the call on the normalized request; when the identity has a saved record the
  request it leaves has network type \<open>bridge\<close> and bridge name \<open>br0\<close> as well, the
  bridge name of the Add; when the identity has no saved record, \<open>DelFromHost\<close> returns
  \<open>ConfigNotFound\<close> before the normalization and leaves request and state as they
  were.
\<close>

theorem normalization_on_add_and_delete:
  assumes "NetType (HostConf confA) \<noteq> ''bridge''" and "NetType (HostConf confD) \<noteq> ''bridge''"
  shows "NetType (HostConf (fst (snd (AddOnHost confA args ipResult w)))) = ''bridge'' \<and>
         BridgeName (BridgeConf (HostConf (fst (snd (AddOnHost confA args ipResult w))))) = ''br0'' \<and>
         AddOnHost confA args ipResult w = AddOnHost (normalizeRequest confA) args ipResult w \<and>
         fst (DelFromHost confD args v) = fst (DelFromHost (normalizeRequest confD) args v) \<and>
         snd (snd (DelFromHost confD args v)) =
           snd (snd (DelFromHost (normalizeRequest confD) args v)) \<and>
         (savedStore v (ContainerID args, IfName args) \<noteq> None \<longrightarrow>
            NetType (HostConf (fst (snd (DelFromHost confD args v)))) = ''bridge'' \<and>
            BridgeName (BridgeConf (HostConf (fst (snd (DelFromHost confD args v))))) = ''br0'' \<and>
            BridgeName (BridgeConf (HostConf (fst (snd (DelFromHost confD args v))))) =
              BridgeName (BridgeConf (HostConf (fst (snd (AddOnHost confA args ipResult w)))))) \<and>
         (savedStore v (ContainerID args, IfName args) = None \<longrightarrow>
            DelFromHost confD args v = (Some ConfigNotFound, confD, v))"
proof -
  have a: "fst (snd (AddOnHost confA args ipResult w)) = normalizeRequest confA"
    by (rule AddOnHost_conf)
  have d: "savedStore v (ContainerID args, IfName args) \<noteq> None \<Longrightarrow>
             fst (snd (DelFromHost confD args v)) = normalizeRequest confD"
    by (rule DelFromHost_conf)
  have n: "savedStore v (ContainerID args, IfName args) = None \<Longrightarrow>
             DelFromHost confD args v = (Some ConfigNotFound, confD, v)"
    by (rule DelFromHost_not_loaded)
  show ?thesis
    unfolding a
    using d n normalizeRequest_coerces [OF assms(1)] normalizeRequest_coerces [OF assms(2)]
      normalizeRequest_NetType [of confA] normalizeRequest_NetType [of confD]
      AddOnHost_normalizes [of confA args ipResult w] DelFromHost_normalizes [of confD args v]
    by auto
qed

theorem normalization_on_add_and_delete_witness:
  "NetType (HostConf (exConf ''interface'' ''vhostuser'' [] ''server'')) \<noteq> ''bridge'' \<and>
   NetType (HostConf (exConf [] ''vhostuser'' ''br7'' ''client'')) \<noteq> ''bridge'' \<and>
   savedStore (exAttached []) (ContainerID exArgs, IfName exArgs) \<noteq> None \<and>
   savedStore exWorld (ContainerID exArgs, IfName exArgs) = None \<and>
   fst (snd (AddOnHost (exConf ''interface'' ''vhostuser'' [] ''server'') exArgs exResult exWorld)) =
     exConf ''bridge'' ''vhostuser'' ''br0'' ''server'' \<and>
   fst (snd (DelFromHost (exConf [] ''vhostuser'' ''br7'' ''client'') exArgs (exAttached []))) =
     exConf ''bridge'' ''vhostuser'' ''br0'' ''client'' \<and>
   BridgeName (BridgeConf (HostConf (fst (snd
       (DelFromHost (exConf [] ''vhostuser'' ''br7'' ''client'') exArgs (exAttached [])))))) =
     BridgeName (BridgeConf (HostConf (fst (snd
       (AddOnHost (exConf ''interface'' ''vhostuser'' [] ''server'') exArgs exResult exWorld))))) \<and>
   DelFromHost (exConf [] ''vhostuser'' ''br7'' ''client'') exArgs exWorld =
     (Some ConfigNotFound, exConf [] ''vhostuser'' ''br7'' ''client'', exWorld)"
proof -
  have h1: "NetType (HostConf (exConf ''interface'' ''vhostuser'' [] ''server'')) \<noteq> ''bridge''"
    by (simp add: exConf_def)
  have h2: "NetType (HostConf (exConf [] ''vhostuser'' ''br7'' ''client'')) \<noteq> ''bridge''"
    by (simp add: exConf_def)
  have h3: "savedStore (exAttached []) (ContainerID exArgs, IfName exArgs) \<noteq> None"
    by (simp add: example_defs)
  have h4: "savedStore exWorld (ContainerID exArgs, IfName exArgs) = None"
    by (simp add: example_defs)
  have a: "fst (snd (AddOnHost (exConf ''interface'' ''vhostuser'' [] ''server'') exArgs exResult
             exWorld)) = exConf ''bridge'' ''vhostuser'' ''br0'' ''server''"
    by (simp add: AddOnHost_conf normalizeRequest_def exConf_def)
  have d: "fst (snd (DelFromHost (exConf [] ''vhostuser'' ''br7'' ''client'') exArgs
             (exAttached []))) = exConf ''bridge'' ''vhostuser'' ''br0'' ''client''"
    using h3 by (simp add: DelFromHost_conf normalizeRequest_def exConf_def)
  have n: "DelFromHost (exConf [] ''vhostuser'' ''br7'' ''client'') exArgs exWorld =
             (Some ConfigNotFound, exConf [] ''vhostuser'' ''br7'' ''client'', exWorld)"
    using h4 normalization_on_add_and_delete [OF h1 h2, of exArgs exResult exWorld exWorld]
    by blast
  show ?thesis
    using h1 h2 h3 h4 a d n
      normalization_on_add_and_delete [OF h1 h2, of exArgs exResult exWorld "exAttached []"]
    by (simp add: exConf_def)
qed

text \<open>
  C2, as the claim states it, fails for \<open>DelFromHost\<close>: for an identity without a saved
  record (a Delete without an Add, or a second Delete) the call returns at the load step,
  and a request with network type \<open>interface\<close> and no bridge name comes back as it was,
  not coerced to \<open>bridge\<close> and \<open>br0\<close>.
\<close>

theorem DelFromHost_without_record_leaves_request:
  "NetType (HostConf (exConf ''interface'' ''vhostuser'' [] ''server'')) \<noteq> ''bridge'' \<and>
   DelFromHost (exConf ''interface'' ''vhostuser'' [] ''server'') exArgs exWorld =
     (Some ConfigNotFound, exConf ''interface'' ''vhostuser'' [] ''server'', exWorld) \<and>
   NetType (HostConf (fst (snd
     (DelFromHost (exConf ''interface'' ''vhostuser'' [] ''server'') exArgs exWorld)))) =
     ''interface'' \<and>
   BridgeName (BridgeConf (HostConf (fst (snd
     (DelFromHost (exConf ''interface'' ''vhostuser'' [] ''server'') exArgs exWorld))))) = []"
proof -
  have r: "DelFromHost (exConf ''interface'' ''vhostuser'' [] ''server'') exArgs exWorld =
             (Some ConfigNotFound, exConf ''interface'' ''vhostuser'' [] ''server'', exWorld)"
    by (simp add: DelFromHost_def LoadConfig_def zeroSavedData_def example_defs)
  show ?thesis
    unfolding r by (simp add: exConf_def)
qed

subsection \<open>An interface type other than vhostuser\<close>

text \<open>
  C1, as the code has it. For every \<open>AddOnHost\<close> request whose interface type is not
  \<open>vhostuser\<close> the call fails and creates no port and no saved record: ports, socket
  directory and Saved-Attachment Store are as before. The bridge step comes first: when the
  bridge of the normalized request exists, the whole state is unchanged and the error is
  \<open>UnsupportedInterfaceType\<close>; when it is absent and its creation fails, the state is
  unchanged and the error is that of the creation; when it is absent and its creation
  succeeds, the bridge has been created and the error is \<open>UnsupportedInterfaceType\<close>.
\<close>

theorem AddOnHost_unsupported_interface:
  assumes "IfType (HostConf conf) \<noteq> ''vhostuser''"
  shows "\<exists>e c w'. AddOnHost conf args ipResult w = (Some e, c, w') \<and>
           ports w' = ports w \<and> savedStore w' = savedStore w \<and> socketDir w' = socketDir w \<and>
           (let name = (if NetType (HostConf conf) = ''bridge''
                        then BridgeName (BridgeConf (HostConf conf)) else ''br0'')
            in if name \<in> bridges w
               then w' = w \<and> e = UnsupportedInterfaceType (IfType (HostConf conf))
               else if failing w (CreateBridgeCall name)
               then w' = w \<and> e = VswitchOperationFailed (CreateBridgeCall name)
               else w' = w\<lparr>bridges := insert name (bridges w)\<rparr> \<and>
                    e = UnsupportedInterfaceType (IfType (HostConf conf)))"
  using assms
  by (simp add: AddOnHost_def addLocalNetworkBridge_def findBridge_def createBridge_def
      UnsupportedInterfaceType_def defaultBridge_def Let_def)

theorem AddOnHost_unsupported_interface_witness:
  "IfType (HostConf (exConf ''interface'' ''dpdkvirtio'' [] ''server'')) \<noteq> ''vhostuser'' \<and>
   AddOnHost (exConf ''interface'' ''dpdkvirtio'' [] ''server'') exArgs exResult exWorld =
     (Some (UnsupportedInterfaceType ''dpdkvirtio''),
      exConf ''bridge'' ''dpdkvirtio'' ''br0'' ''server'',
      exWorld\<lparr>bridges := {''br0''}\<rparr>)"
proof -
  have h: "IfType (HostConf (exConf ''interface'' ''dpdkvirtio'' [] ''server'')) \<noteq> ''vhostuser''"
    by (simp add: exConf_def)
  have c: "fst (snd (AddOnHost (exConf ''interface'' ''dpdkvirtio'' [] ''server'') exArgs exResult
             exWorld)) = exConf ''bridge'' ''dpdkvirtio'' ''br0'' ''server''"
    by (simp add: AddOnHost_conf normalizeRequest_def exConf_def)
  show ?thesis
    using h c AddOnHost_unsupported_interface [OF h, of exArgs exResult exWorld]
    by (auto simp: exConf_def exWorld_def)
qed

text \<open>
  C1, as the claim states it, fails: on a node without the bridge, the request of the
  specification's example (\<open>dpdkvirtio\<close>) is rejected with \<open>UnsupportedInterfaceType\<close>
  after bridge \<open>br0\<close> has been created, and the bridge stays.
\<close>

theorem AddOnHost_unsupported_interface_creates_bridge:
  "IfType (HostConf (exConf ''bridge'' ''dpdkvirtio'' ''br0'' ''server'')) \<noteq> ''vhostuser'' \<and>
   fst (AddOnHost (exConf ''bridge'' ''dpdkvirtio'' ''br0'' ''server'') exArgs exResult exWorld) =
     Some (UnsupportedInterfaceType ''dpdkvirtio'') \<and>
   bridges exWorld = {} \<and>
   bridges (snd (snd (AddOnHost (exConf ''bridge'' ''dpdkvirtio'' ''br0'' ''server'') exArgs
     exResult exWorld))) = {''br0''} \<and>
   snd (snd (AddOnHost (exConf ''bridge'' ''dpdkvirtio'' ''br0'' ''server'') exArgs exResult
     exWorld)) \<noteq> exWorld"
proof -
  have r: "AddOnHost (exConf ''bridge'' ''dpdkvirtio'' ''br0'' ''server'') exArgs exResult exWorld =
             (Some (UnsupportedInterfaceType ''dpdkvirtio''),
              exConf ''bridge'' ''dpdkvirtio'' ''br0'' ''server'', exWorld\<lparr>bridges := {''br0''}\<rparr>)"
    by (simp add: model_defs example_defs UnsupportedInterfaceType_def)
  have "bridges (exWorld\<lparr>bridges := {''br0''}\<rparr>) \<noteq> bridges exWorld"
    by (simp add: exWorld_def)
  then have "exWorld\<lparr>bridges := {''br0''}\<rparr> \<noteq> exWorld" by metis
  then show ?thesis
    unfolding r by (simp add: exConf_def exWorld_def)
qed

subsection \<open>Delete without a saved record\<close>

text \<open>
  C6. For every identity with no record in the Saved-Attachment Store, \<open>DelFromHost\<close>
  returns \<open>ConfigNotFound\<close> and changes nothing: bridges, ports, the socket directory and
  the store are as before, and so is the request.
\<close>

theorem DelFromHost_without_record:
  assumes "savedStore w (ContainerID args, IfName args) = None"
  shows "DelFromHost conf args w = (Some ConfigNotFound, conf, w)"
  using assms by (simp add: DelFromHost_def LoadConfig_def)

theorem DelFromHost_without_record_witness:
  "savedStore exWorld (ContainerID exArgs, IfName exArgs) = None \<and>
   DelFromHost (exConf ''bridge'' ''vhostuser'' ''br0'' ''server'') exArgs exWorld =
     (Some ConfigNotFound, exConf ''bridge'' ''vhostuser'' ''br0'' ''server'', exWorld)"
proof -
  have h: "savedStore exWorld (ContainerID exArgs, IfName exArgs) = None"
    by (simp add: exWorld_def)
  show ?thesis
    using h DelFromHost_without_record [OF h] by simp
qed

subsection \<open>What the calls do to the vswitch\<close>

lemma osRemove_vswitch:
  "bridges (snd (osRemove p w)) = bridges w \<and> ports (snd (osRemove p w)) = ports w"
  by (simp add: osRemove_def split: option.splits fspath.splits)

lemma osRemove_vswitchD:
  "osRemove p w = (e, w') \<Longrightarrow> bridges w' = bridges w \<and> ports w' = ports w"
  using osRemove_vswitch [of p w] by simp

lemma removeMatching_vswitch:
  "bridges (snd (snd (removeMatching path base files n w))) = bridges w \<and>
   ports (snd (snd (removeMatching path base files n w))) = ports w"
proof (induction files arbitrary: n w)
  case Nil
  show ?case by simp
next
  case (Cons f rest)
  have "bridges (snd (osRemove (filepathJoin path f) w)) = bridges w \<and>
        ports (snd (osRemove (filepathJoin path f) w)) = ports w"
    by (rule osRemove_vswitch)
  then show ?case
    using Cons.IH by (auto split: prod.splits option.splits)
qed

lemma removeMatching_vswitchD:
  "removeMatching path base files n w = (e, k, w') \<Longrightarrow>
     bridges w' = bridges w \<and> ports w' = ports w"
  using removeMatching_vswitch [of path base files n w] by simp

lemma addLocalDeviceVhost_bridges:
  "bridges (snd (snd (addLocalDeviceVhost conf args data w))) = bridges w"
  by (auto simp: addLocalDeviceVhost_def Let_def osStat_def osMkdirAll_def createVhostPort_def
        DefaultSocketDir_def split: option.splits prod.splits if_splits)

lemma delLocalDeviceVhost_vswitch:
  "bridges (snd (delLocalDeviceVhost conf args data w)) = bridges w \<and>
   (ports (snd (delLocalDeviceVhost conf args data w)) = ports w \<or>
    ports (snd (delLocalDeviceVhost conf args data w)) =
      filter (\<lambda>(n, q). n \<noteq> Vhostname data) (ports w))"
proof -
  let ?b = "if NetType (HostConf conf) = ''bridge''
            then BridgeName (BridgeConf (HostConf conf)) else []"
  let ?w1 = "w\<lparr>ports := filter (\<lambda>(n, q). n \<noteq> Vhostname data) (ports w)\<rparr>"
  show ?thesis
  proof (cases "failing w (DeleteVhostPortCall (Vhostname data) ?b)")
    case True
    then show ?thesis by (simp add: delLocalDeviceVhost_def deleteVhostPort_def)
  next
    case False
    then have d: "deleteVhostPort (Vhostname data) ?b w = (None, ?w1)"
      by (simp add: deleteVhostPort_def)
    obtain fs er where rd: "Readdirnames SocketDir ?w1 = (fs, er)"
      by (cases "Readdirnames SocketDir ?w1") auto
    obtain e k w2 where
      rm: "removeMatching SocketDir (take 12 (ContainerID args) @ ''-'' @ IfName args) fs 0 ?w1 =
             (e, k, w2)"
      using prod_cases3 by blast
    obtain e3 w3 where os: "osRemove SocketDir w2 = (e3, w3)"
      by (cases "osRemove SocketDir w2") auto
    note w2 = removeMatching_vswitchD [OF rm]
    note w3 = osRemove_vswitchD [OF os]
    have "bridges (snd (delLocalDeviceVhost conf args data w)) = bridges ?w1 \<and>
          ports (snd (delLocalDeviceVhost conf args data w)) = ports ?w1"
      unfolding delLocalDeviceVhost_def Let_def d DefaultSocketDir_def prod.case rd rm os
      using w2 w3 by (simp split: option.splits)
    then show ?thesis by simp
  qed
qed

lemma SaveConfig_bridges: "bridges (snd (SaveConfig conf args data w)) = bridges w"
  by (simp add: SaveConfig_def)

lemma addLocalNetworkBridge_bridges:
  "bridges (snd (addLocalNetworkBridge conf args data w)) =
     (if BridgeName (BridgeConf (HostConf conf)) \<in> bridges w \<or>
         failing w (CreateBridgeCall (BridgeName (BridgeConf (HostConf conf))))
      then bridges w else insert (BridgeName (BridgeConf (HostConf conf))) (bridges w))"
  by (simp add: addLocalNetworkBridge_def findBridge_def createBridge_def)

lemma AddOnHost_bridges:
  assumes "NetType (HostConf conf) = ''bridge''"
  shows "bridges (snd (snd (AddOnHost conf args ipResult w))) =
           bridges (snd (addLocalNetworkBridge conf args zeroSavedData w))"
proof -
  obtain e1 w1 where a: "addLocalNetworkBridge conf args zeroSavedData w = (e1, w1)"
    by (cases "addLocalNetworkBridge conf args zeroSavedData w") auto
  obtain e2 d2 w2 where b: "addLocalDeviceVhost conf args zeroSavedData w1 = (e2, d2, w2)"
    using prod_cases3 by blast
  have w2: "bridges w2 = bridges w1"
    using addLocalDeviceVhost_bridges [of conf args zeroSavedData w1] by (simp add: b)
  obtain e3 w3 where c: "SaveConfig conf args d2 w2 = (e3, w3)"
    by (cases "SaveConfig conf args d2 w2") auto
  have w3: "bridges w3 = bridges w2"
    using SaveConfig_bridges [of conf args d2 w2] by (simp add: c)
  show ?thesis
    unfolding AddOnHost_def Let_def using assms
    by (simp add: a b c w2 w3 SaveConfig_def split: option.splits)
qed

lemma delLocalNetworkBridge_cases:
  assumes "delLocalNetworkBridge conf args data w = (e, w')"
  shows "w' = w \<or>
         (w' = w\<lparr>bridges := bridges w - {BridgeName (BridgeConf (HostConf conf))}\<rparr> \<and>
          \<not> (\<exists>(n, p) \<in> set (ports w). portBridge p = BridgeName (BridgeConf (HostConf conf))))"
  using assms
  by (auto simp: delLocalNetworkBridge_def deleteBridge_def doesBridgeContainInterfaces_def
        list_ex_iff split: if_splits)

lemma DelFromHost_bridges:
  assumes nt: "NetType (HostConf conf) = ''bridge''"
  shows "bridges (snd (snd (DelFromHost conf args w))) = bridges w \<or>
         (bridges (snd (snd (DelFromHost conf args w))) =
            bridges w - {BridgeName (BridgeConf (HostConf conf))} \<and>
          \<not> (\<exists>(n, p) \<in> set (ports (snd (snd (DelFromHost conf args w)))).
                portBridge p = BridgeName (BridgeConf (HostConf conf))))"
proof (cases "savedStore w (ContainerID args, IfName args)")
  case None
  then show ?thesis by (simp add: DelFromHost_not_loaded)
next
  case (Some data)
  let ?w1 = "w\<lparr>savedStore := (savedStore w)((ContainerID args, IfName args) := None)\<rparr>"
  let ?r = "snd (snd (DelFromHost conf args w))"
  let ?name = "BridgeName (BridgeConf (HostConf conf))"
  have ld: "LoadConfig conf args zeroSavedData w = (None, data, ?w1)"
    using Some by (simp add: LoadConfig_def)
  obtain e2 w2 where dv: "delLocalDeviceVhost conf args data ?w1 = (e2, w2)"
    by (cases "delLocalDeviceVhost conf args data ?w1") auto
  have w2: "bridges w2 = bridges w"
    using delLocalDeviceVhost_vswitch [of conf args data ?w1] by (simp add: dv)
  obtain e3 w3 where db: "delLocalNetworkBridge conf args data w2 = (e3, w3)"
    by (cases "delLocalNetworkBridge conf args data w2") auto
  have "?r = ?w1 \<or> ?r = w2 \<or> ?r = w3"
    unfolding DelFromHost_def Let_def ld using nt
    by (simp add: dv db split: option.splits)
  then consider (early) "bridges ?r = bridges w" | (last) "?r = w3"
    using w2 by fastforce
  then show ?thesis
  proof cases
    case early
    then show ?thesis by (rule disjI1)
  next
    case last
    from delLocalNetworkBridge_cases [OF db] show ?thesis
    proof
      assume "w3 = w2"
      with last w2 show ?thesis by simp
    next
      assume d: "w3 = w2\<lparr>bridges := bridges w2 - {?name}\<rparr> \<and>
                 \<not> (\<exists>(n, p) \<in> set (ports w2). portBridge p = ?name)"
      then have "bridges w3 = bridges w - {?name}" and "ports w3 = ports w2"
        using w2 by simp_all
      with d last show ?thesis by simp
    qed
  qed
qed

subsection \<open>The bridge lifecycle\<close>

text \<open>
  C8. The bridge is created only if absent and deleted only if empty. On \<open>AddOnHost\<close>,
  whatever else the call does, a bridge of the (normalized) name that exists leaves the set
  of bridges as it is, and an absent one is added unless its creation fails; no other
  bridge is touched. On \<open>DelFromHost\<close> the set of bridges stays as it is or loses
  that one bridge, and it stays whenever an interface is still attached to the bridge at the
  end of the call. For the two steps themselves: \<open>addLocalNetworkBridge\<close> is a no-op on
  an existing bridge and creates an absent one; \<open>delLocalNetworkBridge\<close> leaves a bridge
  with an attached interface in place and deletes one with none.
\<close>

theorem bridge_lifecycle:
  "(let name = BridgeName (BridgeConf (HostConf (normalizeRequest conf)));
        wA = snd (snd (AddOnHost conf args ipResult w));
        vD = snd (snd (DelFromHost conf args v))
    in (name \<in> bridges w \<longrightarrow> bridges wA = bridges w) \<and>
       (name \<notin> bridges w \<longrightarrow>
          bridges wA = (if failing w (CreateBridgeCall name) then bridges w
                        else insert name (bridges w))) \<and>
       (bridges vD = bridges v \<or> bridges vD = bridges v - {name}) \<and>
       ((\<exists>(n, p) \<in> set (ports vD). portBridge p = name) \<longrightarrow> bridges vD = bridges v)) \<and>
   (let name = BridgeName (BridgeConf (HostConf conf))
    in (name \<in> bridges w \<longrightarrow> addLocalNetworkBridge conf args data w = (None, w)) \<and>
       (name \<notin> bridges w \<and> \<not> failing w (CreateBridgeCall name) \<longrightarrow>
          addLocalNetworkBridge conf args data w =
            (None, w\<lparr>bridges := insert name (bridges w)\<rparr>)) \<and>
       ((\<exists>(n, p) \<in> set (ports v). portBridge p = name) \<longrightarrow>
          delLocalNetworkBridge conf args data v = (None, v)) \<and>
       (\<not> (\<exists>(n, p) \<in> set (ports v). portBridge p = name) \<and>
        \<not> failing v (DeleteBridgeCall name) \<longrightarrow>
          delLocalNetworkBridge conf args data v = (None, v\<lparr>bridges := bridges v - {name}\<rparr>)))"
proof -
  let ?c = "normalizeRequest conf"
  let ?name = "BridgeName (BridgeConf (HostConf ?c))"
  have add: "bridges (snd (snd (AddOnHost conf args ipResult w))) =
               (if ?name \<in> bridges w \<or> failing w (CreateBridgeCall ?name)
                then bridges w else insert ?name (bridges w))"
    using AddOnHost_bridges [OF normalizeRequest_NetType, of conf args ipResult w]
    by (simp only: AddOnHost_normalizes [of conf] addLocalNetworkBridge_bridges)
  have del: "bridges (snd (snd (DelFromHost conf args v))) = bridges v \<or>
             (bridges (snd (snd (DelFromHost conf args v))) = bridges v - {?name} \<and>
              \<not> (\<exists>(n, p) \<in> set (ports (snd (snd (DelFromHost conf args v)))).
                    portBridge p = ?name))"
    using DelFromHost_bridges [OF normalizeRequest_NetType, of conf args v]
      DelFromHost_normalizes [of conf args v]
    by simp
  have api: "(?name \<in> bridges w \<longrightarrow> bridges (snd (snd (AddOnHost conf args ipResult w))) = bridges w) \<and>
       (?name \<notin> bridges w \<longrightarrow>
          bridges (snd (snd (AddOnHost conf args ipResult w))) =
            (if failing w (CreateBridgeCall ?name) then bridges w
             else insert ?name (bridges w))) \<and>
       (bridges (snd (snd (DelFromHost conf args v))) = bridges v \<or>
        bridges (snd (snd (DelFromHost conf args v))) = bridges v - {?name}) \<and>
       ((\<exists>(n, p) \<in> set (ports (snd (snd (DelFromHost conf args v)))). portBridge p = ?name) \<longrightarrow>
          bridges (snd (snd (DelFromHost conf args v))) = bridges v)"
    using add del by auto
  have steps: "(let name = BridgeName (BridgeConf (HostConf conf))
    in (name \<in> bridges w \<longrightarrow> addLocalNetworkBridge conf args data w = (None, w)) \<and>
       (name \<notin> bridges w \<and> \<not> failing w (CreateBridgeCall name) \<longrightarrow>
          addLocalNetworkBridge conf args data w =
            (None, w\<lparr>bridges := insert name (bridges w)\<rparr>)) \<and>
       ((\<exists>(n, p) \<in> set (ports v). portBridge p = name) \<longrightarrow>
          delLocalNetworkBridge conf args data v = (None, v)) \<and>
       (\<not> (\<exists>(n, p) \<in> set (ports v). portBridge p = name) \<and>
        \<not> failing v (DeleteBridgeCall name) \<longrightarrow>
          delLocalNetworkBridge conf args data v = (None, v\<lparr>bridges := bridges v - {name}\<rparr>)))"
    by (simp add: addLocalNetworkBridge_def delLocalNetworkBridge_def findBridge_def
        createBridge_def deleteBridge_def doesBridgeContainInterfaces_def list_ex_iff Let_def)
  show ?thesis
    using api steps unfolding Let_def by (rule conjI)
qed

theorem bridge_lifecycle_witness:
  "bridges exWorld = {} \<and>
   bridges (snd (snd (AddOnHost (exConf ''bridge'' ''vhostuser'' ''br0'' ''server'') exArgs
     exResult exWorld))) = {''br0''} \<and>
   bridges (exAttached []) = {''br0''} \<and>
   bridges (snd (snd (AddOnHost (exConf ''bridge'' ''vhostuser'' ''br0'' ''server'') exArgs
     exResult (exAttached [])))) = {''br0''} \<and>
   bridges (snd (snd (DelFromHost (exConf ''bridge'' ''vhostuser'' ''br0'' ''server'') exArgs
     (exAttached [])))) = {} \<and>
   bridges (snd (snd (DelFromHost (exConf ''bridge'' ''vhostuser'' ''br0'' ''server'') exArgs
     (exShared [])))) = {''br0''}"
proof -
  let ?c = "exConf ''bridge'' ''vhostuser'' ''br0'' ''server''"
  have n: "BridgeName (BridgeConf (HostConf (normalizeRequest ?c))) = ''br0''"
    by (simp add: normalizeRequest_def exConf_def)
  have b0: "bridges exWorld = {}" "failing exWorld = (\<lambda>c. False)"
    by (simp_all add: exWorld_def)
  have b1: "bridges (exAttached []) = {''br0''}" "bridges (exShared []) = {''br0''}"
    by (simp_all add: example_defs)
  have p: "ports (snd (snd (DelFromHost ?c exArgs (exAttached [])))) = []"
    by (simp add: model_defs example_defs)
  have q: "ports (snd (snd (DelFromHost ?c exArgs (exShared [])))) =
             [(''999999999999-eth1'', exPort\<lparr>portSocket := ''999999999999-eth1''\<rparr>)]"
    by (simp add: model_defs example_defs)
  have d: "bridges (snd (snd (DelFromHost ?c exArgs (exAttached [])))) = {}"
    by (simp add: model_defs example_defs)
  show ?thesis
    using bridge_lifecycle [of ?c exArgs exResult exWorld "exShared []" exSaved]
      bridge_lifecycle [of ?c exArgs exResult "exAttached []" "exAttached []" exSaved]
    unfolding Let_def n
    by (simp add: b0 b1 q d exPort_def)
qed

subsection \<open>Cleaning the socket directory\<close>

lemma world_socketDir_same: "socketDir w = Some fs \<Longrightarrow> w\<lparr>socketDir := Some fs\<rparr> = w"
  by (cases w) simp

text \<open>The matcher reads nothing of the world but \<open>regexpOther\<close>.\<close>

lemma regexpMatchString_cong:
  "regexpOther w = regexpOther w' \<Longrightarrow> regexpMatchString pattern s w = regexpMatchString pattern s w'"
  by (simp add: regexpMatchString_def)

text \<open>
  When no removal fails, the loop removes the files of the listing that the pattern matches,
  counts them, and leaves the others.
\<close>

lemma removeMatching_result_aux:
  assumes "regexpOther w = regexpOther w0"
    and "distinct files" and "set files \<subseteq> set fs" and "socketDir w = Some fs"
    and "\<forall>f \<in> set files. regexpMatchString (base @ ''.*'') f w0 \<longrightarrow>
           \<not> failing w (OsRemoveCall (SocketFile f))"
  shows "removeMatching path base files n w =
           (None, n + length (filter (\<lambda>f. regexpMatchString (base @ ''.*'') f w0) files),
            w\<lparr>socketDir := Some (filter (\<lambda>g. \<not> (g \<in> set files \<and>
                 regexpMatchString (base @ ''.*'') g w0)) fs)\<rparr>)"
  using assms
proof (induction files arbitrary: n w fs)
  case Nil
  then show ?case by (simp add: world_socketDir_same)
next
  case (Cons f rest)
  let ?m = "\<lambda>g. regexpMatchString (base @ ''.*'') g w0"
  have here: "regexpMatchString (base @ ''.*'') f w = ?m f"
    using Cons.prems(1) by (rule regexpMatchString_cong)
  show ?case
  proof (cases "?m f")
    case False
    have eq: "filter (\<lambda>g. \<not> (g \<in> set (f # rest) \<and> ?m g)) fs =
              filter (\<lambda>g. \<not> (g \<in> set rest \<and> ?m g)) fs"
      using False by (intro filter_cong) auto
    have len: "n + length (filter ?m rest) = n + length (filter ?m (f # rest))"
      using False by simp
    have "removeMatching path base (f # rest) n w = removeMatching path base rest n w"
      using False here by simp
    also have "\<dots> = (None, n + length (filter ?m rest),
                    w\<lparr>socketDir := Some (filter (\<lambda>g. \<not> (g \<in> set rest \<and> ?m g)) fs)\<rparr>)"
      using Cons.prems by (intro Cons.IH) auto
    finally show ?thesis by (simp only: eq len)
  next
    case True
    let ?w1 = "w\<lparr>socketDir := Some (filter (\<lambda>g. g \<noteq> f) fs)\<rparr>"
    have rm: "osRemove (filepathJoin path f) w = (None, ?w1)"
      using Cons.prems True by (simp add: osRemove_def filepathJoin_def)
    have eq: "filter (\<lambda>g. \<not> (g \<in> set rest \<and> ?m g)) (filter (\<lambda>g. g \<noteq> f) fs) =
              filter (\<lambda>g. \<not> (g \<in> set (f # rest) \<and> ?m g)) fs"
      unfolding filter_filter using True by (intro filter_cong) auto
    have weq: "?w1\<lparr>socketDir := Some (filter (\<lambda>g. \<not> (g \<in> set rest \<and> ?m g))
                 (filter (\<lambda>g. g \<noteq> f) fs))\<rparr> =
               w\<lparr>socketDir := Some (filter (\<lambda>g. \<not> (g \<in> set (f # rest) \<and> ?m g)) fs)\<rparr>"
      by (simp only: eq) simp
    have len: "Suc n + length (filter ?m rest) = n + length (filter ?m (f # rest))"
      using True by simp
    have "removeMatching path base (f # rest) n w = removeMatching path base rest (Suc n) ?w1"
      using True here rm by simp
    also have "\<dots> = (None, Suc n + length (filter ?m rest),
                    ?w1\<lparr>socketDir := Some (filter (\<lambda>g. \<not> (g \<in> set rest \<and> ?m g))
                       (filter (\<lambda>g. g \<noteq> f) fs))\<rparr>)"
      using Cons.prems by (intro Cons.IH) auto
    finally show ?thesis by (simp only: weq len)
  qed
qed

lemma removeMatching_result:
  assumes "distinct files" and "set files \<subseteq> set fs" and "socketDir w = Some fs"
    and "\<forall>f \<in> set files. regexpMatchString (base @ ''.*'') f w \<longrightarrow>
           \<not> failing w (OsRemoveCall (SocketFile f))"
  shows "removeMatching path base files n w =
           (None, n + length (filter (\<lambda>f. regexpMatchString (base @ ''.*'') f w) files),
            w\<lparr>socketDir := Some (filter (\<lambda>g. \<not> (g \<in> set files \<and>
                 regexpMatchString (base @ ''.*'') g w)) fs)\<rparr>)"
  using assms by (intro removeMatching_result_aux) simp_all

text \<open>
  What the pattern matches: for a reference string without metacharacters, every name that
  contains the reference string, at its start or anywhere else.
\<close>

lemma literalAt_iff: "literalAt lit s \<longleftrightarrow> (\<exists>t. s = lit @ t)"
  by (induction lit s rule: literalAt.induct) auto

lemma literalIn_iff: "literalIn lit s \<longleftrightarrow> (\<exists>p t. s = p @ lit @ t)"
proof (induction s)
  case Nil
  show ?case by (simp add: literalAt_iff)
next
  case (Cons d s)
  show ?case
  proof
    assume "literalIn lit (d # s)"
    then consider "literalAt lit (d # s)" | "literalIn lit s" by auto
    then show "\<exists>p t. d # s = p @ lit @ t"
    proof cases
      case 1
      then obtain t where "d # s = [] @ lit @ t" by (auto simp: literalAt_iff)
      then show ?thesis by blast
    next
      case 2
      then obtain p t where "s = p @ lit @ t" using Cons.IH by blast
      then have "d # s = (d # p) @ lit @ t" by simp
      then show ?thesis by blast
    qed
  next
    assume "\<exists>p t. d # s = p @ lit @ t"
    then obtain p t where pt: "d # s = p @ lit @ t" by blast
    show "literalIn lit (d # s)"
    proof (cases p)
      case Nil
      with pt have "literalAt lit (d # s)" by (auto simp: literalAt_iff)
      then show ?thesis by simp
    next
      case (Cons a p')
      with pt have "s = p' @ lit @ t" by simp
      with Cons.IH show ?thesis by auto
    qed
  qed
qed

lemma regexpMatchString_plain:
  assumes "regexpLiteral base"
  shows "regexpMatchString (base @ ''.*'') s w \<longleftrightarrow> (\<exists>p t. s = p @ base @ t)"
  using assms by (simp add: regexpMatchString_def Let_def literalIn_iff)

text \<open>On a pattern that is not of the modelled form the matcher is the environment's.\<close>

lemma regexpMatchString_other:
  assumes "\<not> regexpLiteral base"
  shows "regexpMatchString (base @ ''.*'') s w = regexpOther w (base @ ''.*'') s"
  using assms by (simp add: regexpMatchString_def Let_def)

lemma delLocalNetworkBridge_socketDir:
  "socketDir (snd (delLocalNetworkBridge conf args data w)) = socketDir w"
  by (simp add: delLocalNetworkBridge_def deleteBridge_def)

lemma delLocalDeviceVhost_all_matched:
  assumes len: "12 \<le> length (ContainerID args)"
    and dir: "socketDir w = Some files" and dist: "distinct files"
    and allm: "\<forall>f \<in> set files. regexpMatchString (referenceString args @ ''.*'') f w"
    and port: "\<not> failing w (DeleteVhostPortCall (Vhostname data)
                 (if NetType (HostConf conf) = ''bridge''
                  then BridgeName (BridgeConf (HostConf conf)) else []))"
    and fs: "\<not> failing w (OsOpenCall SocketDir)" "\<not> failing w (ReaddirnamesCall SocketDir)"
            "\<forall>f \<in> set files. \<not> failing w (OsRemoveCall (SocketFile f))"
            "\<not> failing w (OsRemoveCall SocketDir)"
  shows "fst (delLocalDeviceVhost conf args data w) = None \<and>
         socketDir (snd (delLocalDeviceVhost conf args data w)) = None"
proof -
  let ?b = "if NetType (HostConf conf) = ''bridge''
            then BridgeName (BridgeConf (HostConf conf)) else []"
  let ?w1 = "w\<lparr>ports := filter (\<lambda>(n, q). n \<noteq> Vhostname data) (ports w)\<rparr>"
  let ?base = "take 12 (ContainerID args) @ ''-'' @ IfName args"
  let ?m = "\<lambda>f. regexpMatchString (?base @ ''.*'') f ?w1"
  have d: "deleteVhostPort (Vhostname data) ?b w = (None, ?w1)"
    using port by (simp add: deleteVhostPort_def)
  have same: "?m f = regexpMatchString (referenceString args @ ''.*'') f w" for f
    unfolding referenceString_def by (rule regexpMatchString_cong) simp
  have allm': "\<forall>f \<in> set files. ?m f"
    using allm by (simp only: same) 
  have flt: "filter ?m files = files"
    using allm' by (simp only: filter_id_conv) 
  have emp: "filter (\<lambda>g. \<not> (g \<in> set files \<and> ?m g)) files = []"
    using allm' by (simp only: filter_empty_conv) blast
  have rm: "removeMatching SocketDir ?base files 0 ?w1 =
              (None, length files, ?w1\<lparr>socketDir := Some []\<rparr>)"
  proof -
    have "removeMatching SocketDir ?base files 0 ?w1 =
            (None, 0 + length (filter ?m files),
             ?w1\<lparr>socketDir := Some (filter (\<lambda>g. \<not> (g \<in> set files \<and> ?m g)) files)\<rparr>)"
      using dist dir fs(3) by (intro removeMatching_result) simp_all
    then show ?thesis by (simp only: flt emp) simp
  qed
  show ?thesis
    unfolding delLocalDeviceVhost_def Let_def d
    using len dir fs(1,2,4) rm
    by (simp add: osOpen_def Readdirnames_def DefaultSocketDir_def osRemove_def)
qed

text \<open>
  C10. In \<open>DelFromHost\<close>, after the port deletion has succeeded, the socket directory
  itself is removed whenever every file of its listing matched the attachment's pattern
  (and the directory could be opened and listed, and the removals did not fail). The listing
  may be empty: a socket directory with no file in it is removed although the call deleted
  no file. This holds for every identity, whatever the pattern made of it: on a pattern
  outside the modelled form, "matched" is what Go's matcher answers (\<open>regexpOther\<close>),
  so that an identity whose pattern does not compile, for which Go reports no match,
  satisfies the hypothesis with the empty listing only.
\<close>

theorem DelFromHost_removes_fully_matched_directory:
  assumes "savedStore w (ContainerID args, IfName args) = Some data"
    and "IfType (HostConf conf) = ''vhostuser''"
    and "12 \<le> length (ContainerID args)"
    and "socketDir w = Some files" and "distinct files"
    and "\<forall>f \<in> set files. regexpMatchString (referenceString args @ ''.*'') f w"
    and "\<not> failing w (DeleteVhostPortCall (Vhostname data)
            (BridgeName (BridgeConf (HostConf (normalizeRequest conf)))))"
    and "\<not> failing w (OsOpenCall SocketDir)" and "\<not> failing w (ReaddirnamesCall SocketDir)"
    and "\<forall>f \<in> set files. \<not> failing w (OsRemoveCall (SocketFile f))"
    and "\<not> failing w (OsRemoveCall SocketDir)"
  shows "socketDir (snd (snd (DelFromHost conf args w))) = None"
proof -
  let ?w1 = "w\<lparr>savedStore := (savedStore w)((ContainerID args, IfName args) := None)\<rparr>"
  let ?c = "normalizeRequest conf"
  have nt: "NetType (HostConf ?c) = ''bridge''"
    by (rule normalizeRequest_NetType)
  have m: "\<forall>f \<in> set files. regexpMatchString (referenceString args @ ''.*'') f ?w1"
  proof
    fix f assume "f \<in> set files"
    with assms(6) have "regexpMatchString (referenceString args @ ''.*'') f w" by blast
    moreover have "regexpMatchString (referenceString args @ ''.*'') f ?w1 =
                   regexpMatchString (referenceString args @ ''.*'') f w"
      by (rule regexpMatchString_cong) simp
    ultimately show "regexpMatchString (referenceString args @ ''.*'') f ?w1" by simp
  qed
  have dv: "fst (delLocalDeviceVhost ?c args data ?w1) = None \<and>
            socketDir (snd (delLocalDeviceVhost ?c args data ?w1)) = None"
    using assms(3-5,7-11) nt m
    by (intro delLocalDeviceVhost_all_matched [where files = files]) simp_all
  obtain w2 where w2: "delLocalDeviceVhost ?c args data ?w1 = (None, w2)" "socketDir w2 = None"
    using dv by (cases "delLocalDeviceVhost ?c args data ?w1") auto
  obtain e3 w3 where b: "delLocalNetworkBridge ?c args data w2 = (e3, w3)"
    by fastforce
  have "socketDir w3 = socketDir w2"
    using delLocalNetworkBridge_socketDir [of ?c args data w2] by (simp add: b)
  moreover have "snd (snd (DelFromHost conf args w)) = w3"
    unfolding DelFromHost_loaded [OF assms(1)] using assms(2)
    by (cases e3) (simp_all add: w2(1) b)
  ultimately show ?thesis
    using w2(2) by simp
qed

theorem DelFromHost_removes_fully_matched_directory_witness:
  "socketDir (exAttached []) = Some [] \<and>
   socketDir (snd (snd (DelFromHost (exConf ''interface'' ''vhostuser'' [] ''server'') exArgs
     (exAttached [])))) = None \<and>
   socketDir (exAttached [''abc123def456-eth0'', ''abc123def456-eth0.lock'']) =
     Some [''abc123def456-eth0'', ''abc123def456-eth0.lock''] \<and>
   socketDir (snd (snd (DelFromHost (exConf ''interface'' ''vhostuser'' [] ''server'') exArgs
     (exAttached [''abc123def456-eth0'', ''abc123def456-eth0.lock''])))) = None"
proof -
  let ?c = "exConf ''interface'' ''vhostuser'' [] ''server''"
  let ?fs = "[''abc123def456-eth0'', ''abc123def456-eth0.lock'']"
  have s: "savedStore (exAttached fs) (ContainerID exArgs, IfName exArgs) = Some exSaved" for fs
    by (simp add: example_defs)
  have i: "IfType (HostConf ?c) = ''vhostuser''"
    by (simp add: exConf_def)
  have l: "12 \<le> length (ContainerID exArgs)"
    by (simp add: exArgs_def)
  have d: "socketDir (exAttached fs) = Some fs" for fs
    by (simp add: example_defs)
  have m: "\<forall>f \<in> set ?fs. regexpMatchString (referenceString exArgs @ ''.*'') f (exAttached ?fs)"
    by (simp add: referenceString_def exArgs_def regexpMatchString_def regexpLiteral_def
        regexpMeta_def Let_def)
  have f: "\<not> failing (exAttached fs) c" for fs c
    by (simp add: example_defs)
  have "socketDir (snd (snd (DelFromHost ?c exArgs (exAttached [])))) = None"
    using DelFromHost_removes_fully_matched_directory [OF s i l d, of "[]"] f by simp
  moreover have "socketDir (snd (snd (DelFromHost ?c exArgs (exAttached ?fs)))) = None"
    using DelFromHost_removes_fully_matched_directory [OF s i l d _ m] f by simp
  ultimately show ?thesis
    using d by simp
qed

text \<open>
  An identity whose pattern does not compile (an unclosed group): Go reports no match, which
  is the answer of \<open>regexpOther\<close> in the example node; no file is removed, the count
  differs from the length of the listing, and the directory stays.
\<close>

lemma unparsable_pattern_example:
  "\<not> regexpLiteral (referenceString \<lparr>ContainerID = ''abc123def456789'', IfName = ''eth(0''\<rparr>) \<and>
   socketDir (snd (snd (DelFromHost (exConf ''bridge'' ''vhostuser'' ''br0'' ''server'')
     \<lparr>ContainerID = ''abc123def456789'', IfName = ''eth(0''\<rparr>
     ((exAttached [''abc123def456-eth(0''])
        \<lparr>savedStore := [(''abc123def456789'', ''eth(0'') \<mapsto> exSaved]\<rparr>)))) =
     Some [''abc123def456-eth(0'']"
  by (simp add: model_defs example_defs referenceString_def)

text \<open>
  The example of the specification: of the three files, the two of the attachment are
  removed and the file of the other attachment is left.
\<close>

lemma prefix_scoped_cleanup_example:
  "DelFromHost (exConf ''bridge'' ''vhostuser'' ''br0'' ''server'') exArgs
     (exAttached [''abc123def456-eth0.sock'', ''abc123def456-eth0.lock'',
                  ''999999999999-eth1.sock'']) =
     (None, exConf ''bridge'' ''vhostuser'' ''br0'' ''server'',
      (exAttached [''999999999999-eth1.sock''])
        \<lparr>bridges := {}, ports := [], savedStore := Map.empty\<rparr>)"
  by (simp add: model_defs example_defs)

text \<open>
  C5, on the code. The pattern is not anchored, so a file whose name only contains the
  reference string is removed with the files that start with it: here
  \<open>old-abc123def456-eth0.sock\<close>, which is not prefixed by \<open>abc123def456-eth0\<close>, is
  gone after \<open>DelFromHost\<close>.
\<close>

theorem DelFromHost_removes_file_not_prefixed:
  "referenceString exArgs = ''abc123def456-eth0'' \<and>
   take (length (referenceString exArgs)) ''old-abc123def456-eth0.sock'' \<noteq>
     referenceString exArgs \<and>
   DelFromHost (exConf ''bridge'' ''vhostuser'' ''br0'' ''server'') exArgs
     (exAttached [''abc123def456-eth0.sock'', ''old-abc123def456-eth0.sock'',
                  ''999999999999-eth1.sock'']) =
     (None, exConf ''bridge'' ''vhostuser'' ''br0'' ''server'',
      (exAttached [''999999999999-eth1.sock''])
        \<lparr>bridges := {}, ports := [], savedStore := Map.empty\<rparr>)"
  by (simp add: model_defs example_defs referenceString_def)

subsection \<open>Errors that are not returned\<close>

lemma delLocalDeviceVhost_drops_port_error:
  assumes "failing w (DeleteVhostPortCall (Vhostname data)
             (if NetType (HostConf conf) = ''bridge''
              then BridgeName (BridgeConf (HostConf conf)) else []))"
  shows "delLocalDeviceVhost conf args data w = (None, w)"
  using assms by (simp add: delLocalDeviceVhost_def deleteVhostPort_def)

text \<open>
  C3, on the code. When the port deletion fails, \<open>DelFromHost\<close> does not return the
  error. With the port still attached to \<open>br0\<close> the call returns \<open>nil\<close> and leaves port
  and bridge; with no port on \<open>br0\<close> it goes on to the bridge step, deletes the bridge
  and returns \<open>nil\<close>. In both cases the socket files are left.
\<close>

theorem DelFromHost_port_deletion_error_not_returned:
  "failing ((exAttached [''abc123def456-eth0''])
      \<lparr>failing := (\<lambda>c. c = DeleteVhostPortCall ''abc123def456-eth0'' ''br0'')\<rparr>)
     (DeleteVhostPortCall (Vhostname exSaved) ''br0'') \<and>
   DelFromHost (exConf ''bridge'' ''vhostuser'' ''br0'' ''server'') exArgs
     ((exAttached [''abc123def456-eth0''])
        \<lparr>failing := (\<lambda>c. c = DeleteVhostPortCall ''abc123def456-eth0'' ''br0'')\<rparr>) =
     (None, exConf ''bridge'' ''vhostuser'' ''br0'' ''server'',
      (exAttached [''abc123def456-eth0''])
        \<lparr>savedStore := Map.empty,
         failing := (\<lambda>c. c = DeleteVhostPortCall ''abc123def456-eth0'' ''br0'')\<rparr>) \<and>
   DelFromHost (exConf ''bridge'' ''vhostuser'' ''br0'' ''server'') exArgs
     ((exAttached [''abc123def456-eth0''])
        \<lparr>ports := [],
         failing := (\<lambda>c. c = DeleteVhostPortCall ''abc123def456-eth0'' ''br0'')\<rparr>) =
     (None, exConf ''bridge'' ''vhostuser'' ''br0'' ''server'',
      (exAttached [''abc123def456-eth0''])
        \<lparr>bridges := {}, ports := [], savedStore := Map.empty,
         failing := (\<lambda>c. c = DeleteVhostPortCall ''abc123def456-eth0'' ''br0'')\<rparr>)"
  by (simp add: model_defs example_defs)

lemma addLocalDeviceVhost_drops_mac_error:
  assumes "12 \<le> length (ContainerID args)" and "osStat DefaultSocketDir w = None"
    and "\<not> failing w (CreateVhostPortCall (referenceString args)
            (Mode (VhostConf (HostConf conf)) = ''Mode'')
            (if NetType (HostConf conf) = ''bridge''
             then BridgeName (BridgeConf (HostConf conf)) else []))"
    and "failing w (GetVhostPortMacCall (assignedPortName w (referenceString args)))"
  shows "fst (addLocalDeviceVhost conf args data w) = None \<and>
         VhostMac (fst (snd (addLocalDeviceVhost conf args data w))) = VhostMac data"
  using assms
  by (auto simp: addLocalDeviceVhost_def referenceString_def createVhostPort_def
        getVhostPortMac_def Let_def split: if_splits)

text \<open>
  C7, on the code. When the MAC query fails after the port has been created,
  \<open>AddOnHost\<close> returns \<open>nil\<close> and saves a record whose \<open>VhostMac\<close> is empty.
\<close>

theorem AddOnHost_mac_query_error_not_returned:
  "AddOnHost (exConf ''bridge'' ''vhostuser'' ''br0'' ''server'') exArgs exResult
     (exWorld\<lparr>failing := (\<lambda>c. c = GetVhostPortMacCall ''abc123def456-eth0'')\<rparr>) =
     (None, exConf ''bridge'' ''vhostuser'' ''br0'' ''server'',
      exWorld\<lparr>bridges := {''br0''},
              ports := [(''abc123def456-eth0'', exPort)],
              socketDir := Some [],
              savedStore := [(''abc123def456789'', ''eth0'') \<mapsto>
                \<lparr>Vhostname = ''abc123def456-eth0'', VhostMac = [],
                 IfMac = ''fe:01:02:03:04:ab''\<rparr>],
              failing := (\<lambda>c. c = GetVhostPortMacCall ''abc123def456-eth0'')\<rparr>)"
  by (simp add: model_defs example_defs)

subsection \<open>The socket mode of the port\<close>

lemma addLocalDeviceVhost_port_mode:
  assumes "fst (addLocalDeviceVhost conf args data w) = None"
  shows "\<exists>n p rest. ports (snd (snd (addLocalDeviceVhost conf args data w))) = (n, p) # rest \<and>
           portClient p = (Mode (VhostConf (HostConf conf)) = ''Mode'')"
  using assms
  by (auto simp: addLocalDeviceVhost_def createVhostPort_def Let_def
        split: if_splits option.splits prod.splits)

text \<open>
  C4, on the code. The mode is compared with the string \<open>Mode\<close>: a request with vhost
  mode \<open>client\<close> gets a port in server mode, and the only mode that gives a client port
  is the string \<open>Mode\<close> itself.
\<close>

theorem AddOnHost_client_mode_creates_server_port:
  "AddOnHost (exConf ''bridge'' ''vhostuser'' ''br0'' ''client'') exArgs exResult exWorld =
     (None, exConf ''bridge'' ''vhostuser'' ''br0'' ''client'',
      exWorld\<lparr>bridges := {''br0''},
              ports := [(''abc123def456-eth0'',
                         \<lparr>portBridge = ''br0'', portSocket = ''abc123def456-eth0'',
                          portClient = False\<rparr>)],
              socketDir := Some [],
              savedStore := [(''abc123def456789'', ''eth0'') \<mapsto> exSaved]\<rparr>) \<and>
   ports (snd (snd (AddOnHost (exConf ''bridge'' ''vhostuser'' ''br0'' ''Mode'') exArgs exResult
     exWorld))) =
     [(''abc123def456-eth0'',
       \<lparr>portBridge = ''br0'', portSocket = ''abc123def456-eth0'', portClient = True\<rparr>)]"
  by (simp add: model_defs example_defs)

end
